theory Spec2Isabelle
  imports Main
begin

section \<open>Python values as the store and the request body hand them over\<close>

text \<open>
  The records that \<open>get_documents\<close> returns are schema-less: a record is normally a
  dict from string keys to values of any kind, and nothing in \<open>main.py\<close> checks that a
  record is a dict before calling \<open>d.get\<close> on it. The values that matter to the code
  are \<open>None\<close>, strings, and values that are neither (lists and nested dicts stand
  for those). Numbers, booleans and bytes are left out: whether a \<open>str\<close> field accepts
  them depends on the version and mode of the validation library, while a list or a
  dict is refused by all of them. A dict is an association list read with
  \<open>map_of\<close>. A \<open>char\<close> stands for one character of a Python string.
\<close>

datatype pyval =
    PNone
  | PStr string
  | PList "pyval list"
  | PDict "(string \<times> pyval) list"

text \<open>Truth value testing, as \<open>or\<close> and \<open>not\<close> apply it.\<close>

fun truthy :: "pyval \<Rightarrow> bool" where
  "truthy PNone = False"
| "truthy (PStr s) = (s \<noteq> [])"
| "truthy (PList xs) = (xs \<noteq> [])"
| "truthy (PDict kvs) = (kvs \<noteq> [])"

text \<open>
  Every exception the modelled code can meet. All of them are subclasses of
  \<open>Exception\<close>, so \<open>except Exception\<close> catches each one.
\<close>

datatype error =
    AttributeError
  | ValidationError
  | GatewayError string

text \<open>
  \<open>d.get(key)\<close>: on a dict the stored value, or \<open>None\<close> for a missing key; any
  other value has no attribute \<open>get\<close>.
\<close>

definition dict_get :: "(string \<times> pyval) list \<Rightarrow> string \<Rightarrow> pyval" where
  "dict_get kvs k = (case map_of kvs k of None \<Rightarrow> PNone | Some v \<Rightarrow> v)"

fun py_get :: "pyval \<Rightarrow> string \<Rightarrow> error + pyval" where
  "py_get (PDict kvs) k = Inr (dict_get kvs k)"
| "py_get PNone k = Inl AttributeError"
| "py_get (PStr s) k = Inl AttributeError"
| "py_get (PList xs) k = Inl AttributeError"

text \<open>A record is a mapping when it is a dict.\<close>

fun is_mapping :: "pyval \<Rightarrow> bool" where
  "is_mapping (PDict kvs) = True"
| "is_mapping PNone = False"
| "is_mapping (PStr s) = False"
| "is_mapping (PList xs) = False"

section \<open>Models (lines 71--80)\<close>

record Project =
  title :: string
  location :: "string option"
  image :: "string option"

text \<open>Validation of a field declared \<open>str\<close>, and of one declared \<open>Optional[str]\<close>.\<close>

fun validate_str :: "pyval \<Rightarrow> error + string" where
  "validate_str (PStr s) = Inr s"
| "validate_str PNone = Inl ValidationError"
| "validate_str (PList xs) = Inl ValidationError"
| "validate_str (PDict kvs) = Inl ValidationError"

fun validate_optional_str :: "pyval \<Rightarrow> error + string option" where
  "validate_optional_str PNone = Inr None"
| "validate_optional_str (PStr s) = Inr (Some s)"
| "validate_optional_str (PList xs) = Inl ValidationError"
| "validate_optional_str (PDict kvs) = Inl ValidationError"

text \<open>
  \<open>Project(title=t, location=l, image=i)\<close>: the constructor validates the three
  keyword arguments against the declared field types and raises when one fails.
\<close>

definition new_Project :: "pyval \<Rightarrow> pyval \<Rightarrow> pyval \<Rightarrow> error + Project" where
  "new_Project t l i =
     (case validate_str t of
        Inl e \<Rightarrow> Inl e
      | Inr t' \<Rightarrow>
          (case validate_optional_str l of
             Inl e \<Rightarrow> Inl e
           | Inr l' \<Rightarrow>
               (case validate_optional_str i of
                  Inl e \<Rightarrow> Inl e
                | Inr i' \<Rightarrow> Inr \<lparr>title = t', location = l', image = i'\<rparr>)))"

text \<open>
  \<open>Project(**p)\<close> for a dict \<open>p\<close>: each field is taken from the key of its name; a
  missing \<open>location\<close> or \<open>image\<close> defaults to \<open>None\<close>, a missing \<open>title\<close> fails
  validation as \<open>None\<close> does.
\<close>

definition Project_of_kwargs :: "(string \<times> pyval) list \<Rightarrow> error + Project" where
  "Project_of_kwargs p =
     new_Project (dict_get p ''title'') (dict_get p ''location'') (dict_get p ''image'')"

text \<open>
  \<open>ContactMessageIn\<close> (lines 71--74). \<open>Field(..., min_length, max_length)\<close> bounds
  the number of characters of a required string. What \<open>EmailStr\<close> accepts is decided
  by a library outside \<open>main.py\<close>: \<open>validate_email\<close> is the parameter standing for
  it, \<open>None\<close> for an address it refuses and otherwise the address as it stores it.
\<close>

record ContactMessageIn =
  name :: string
  email :: string
  message :: string

definition validate_constrained_str :: "nat \<Rightarrow> nat \<Rightarrow> pyval \<Rightarrow> error + string" where
  "validate_constrained_str min_length max_length v =
     (case validate_str v of
        Inl e \<Rightarrow> Inl e
      | Inr s \<Rightarrow>
          if length s < min_length then Inl ValidationError
          else if max_length < length s then Inl ValidationError
          else Inr s)"

definition validate_EmailStr :: "(string \<Rightarrow> string option) \<Rightarrow> pyval \<Rightarrow> error + string" where
  "validate_EmailStr validate_email v =
     (case validate_str v of
        Inl e \<Rightarrow> Inl e
      | Inr s \<Rightarrow>
          (case validate_email s of
             None \<Rightarrow> Inl ValidationError
           | Some s' \<Rightarrow> Inr s'))"

text \<open>
  Building a \<open>ContactMessageIn\<close> from a request body: the body has to be an object,
  and a field that is missing fails as \<open>None\<close> does.
\<close>

fun new_ContactMessageIn ::
  "(string \<Rightarrow> string option) \<Rightarrow> pyval \<Rightarrow> error + ContactMessageIn" where
  "new_ContactMessageIn validate_email (PDict kvs) =
     (case validate_constrained_str 2 100 (dict_get kvs ''name'') of
        Inl e \<Rightarrow> Inl e
      | Inr n \<Rightarrow>
          (case validate_EmailStr validate_email (dict_get kvs ''email'') of
             Inl e \<Rightarrow> Inl e
           | Inr a \<Rightarrow>
               (case validate_constrained_str 10 5000 (dict_get kvs ''message'') of
                  Inl e \<Rightarrow> Inl e
                | Inr m \<Rightarrow> Inr \<lparr>name = n, email = a, message = m\<rparr>)))"
| "new_ContactMessageIn validate_email PNone = Inl ValidationError"
| "new_ContactMessageIn validate_email (PStr s) = Inl ValidationError"
| "new_ContactMessageIn validate_email (PList xs) = Inl ValidationError"

section \<open>Contact (lines 86--92)\<close>

text \<open>
  What a request ends in besides a JSON body: the \<open>HTTPException\<close> that
  \<open>submit_contact\<close> raises, with its status code and detail, or the framework's
  refusal of a body that does not validate, answered with status 422.
\<close>

datatype http_error =
    HTTPException nat string
  | RequestValidationError

fun status_code :: "http_error + pyval \<Rightarrow> nat" where
  "status_code (Inr content) = 200"
| "status_code (Inl (HTTPException code d)) = code"
| "status_code (Inl RequestValidationError) = 422"

fun detail :: "http_error + pyval \<Rightarrow> string option" where
  "detail (Inl (HTTPException code d)) = Some d"
| "detail (Inl RequestValidationError) = None"
| "detail (Inr content) = None"

text \<open>
  \<open>create_document\<close> is not part of \<open>main.py\<close>; it is a parameter: given the
  collection and the message it returns the new id (\<open>Inr\<close>) or raises, \<open>Inl\<close> with
  the text \<open>str(e)\<close> of the exception. The calls made to it are recorded in a list
  that the handler extends.
\<close>

type_synonym create_calls = "(string \<times> ContactMessageIn) list"

definition submit_contact ::
  "(string \<Rightarrow> ContactMessageIn \<Rightarrow> string + string) \<Rightarrow> ContactMessageIn \<Rightarrow> create_calls
     \<Rightarrow> (http_error + pyval) \<times> create_calls" where
  "submit_contact create_document msg calls =
     (case create_document ''contact_messages'' msg of
        Inr doc_id \<Rightarrow>
          (Inr (PDict [(''status'', PStr ''ok''), (''id'', PStr doc_id)]),
           calls @ [(''contact_messages'', msg)])
      | Inl e \<Rightarrow>
          (Inl (HTTPException 500 e), calls @ [(''contact_messages'', msg)]))"

text \<open>
  The route \<open>POST /api/contact\<close>: the parameter \<open>msg: ContactMessageIn\<close> makes the
  framework build the message from the body first, and call the handler only with a
  message that validated.
\<close>

definition post_api_contact ::
  "(string \<Rightarrow> string option) \<Rightarrow> (string \<Rightarrow> ContactMessageIn \<Rightarrow> string + string) \<Rightarrow> pyval
     \<Rightarrow> create_calls \<Rightarrow> (http_error + pyval) \<times> create_calls" where
  "post_api_contact validate_email create_document body calls =
     (case new_ContactMessageIn validate_email body of
        Inl e \<Rightarrow> (Inl RequestValidationError, calls)
      | Inr msg \<Rightarrow> submit_contact create_document msg calls)"

section \<open>Projects (lines 98--139)\<close>

definition DEFAULT_PROJECTS :: "(string \<times> pyval) list list" where
  "DEFAULT_PROJECTS =
     [ [ (''title'', PStr ''Courtyard Residence''),
         (''location'', PStr ''Lisbon, Portugal''),
         (''image'', PStr ''https://images.unsplash.com/photo-1501045661006-fcebe0257c3f?q=80&w=1600&auto=format&fit=crop'') ],
       [ (''title'', PStr ''Gallery Pavilion''),
         (''location'', PStr ''Copenhagen, Denmark''),
         (''image'', PStr ''https://images.unsplash.com/photo-1529429612777-95c0d0f2ad32?q=80&w=1600&auto=format&fit=crop'') ],
       [ (''title'', PStr ''Cliff House''),
         (''location'', PStr ''Big Sur, USA''),
         (''image'', PStr ''https://images.unsplash.com/photo-1519710164239-da123dc03ef4?q=80&w=1600&auto=format&fit=crop'') ],
       [ (''title'', PStr ''Cultural Center''),
         (''location'', PStr ''Kyoto, Japan''),
         (''image'', PStr ''https://images.unsplash.com/photo-1518770660439-4636190af475?q=80&w=1600&auto=format&fit=crop'') ] ]"

text \<open>
  The list comprehension \<open>[Project(**p) for p in DEFAULT_PROJECTS]\<close>: the first
  constructor that raises ends it.
\<close>

fun projects_of :: "(string \<times> pyval) list list \<Rightarrow> error + Project list" where
  "projects_of [] = Inr []"
| "projects_of (p # ps) =
     (case Project_of_kwargs p of
        Inl e \<Rightarrow> Inl e
      | Inr x \<Rightarrow> (case projects_of ps of Inl e \<Rightarrow> Inl e | Inr xs \<Rightarrow> Inr (x # xs)))"

definition default_projects :: "error + Project list" where
  "default_projects = projects_of DEFAULT_PROJECTS"

text \<open>
  The argument of \<open>Project(...)\<close> in the loop body (lines 131--135). \<open>a or b\<close>
  evaluates \<open>b\<close> only when \<open>a\<close> is falsy, and is then \<open>b\<close> whatever \<open>b\<close> is.
\<close>

definition title_arg :: "pyval \<Rightarrow> error + pyval" where
  "title_arg d =
     (case py_get d ''title'' of
        Inl e \<Rightarrow> Inl e
      | Inr a \<Rightarrow>
          if truthy a then Inr a
          else (case py_get d ''name'' of
                  Inl e \<Rightarrow> Inl e
                | Inr b \<Rightarrow> if truthy b then Inr b else Inr (PStr ''Untitled'')))"

definition location_arg :: "pyval \<Rightarrow> error + pyval" where
  "location_arg d = py_get d ''location''"

definition image_arg :: "pyval \<Rightarrow> error + pyval" where
  "image_arg d =
     (case py_get d ''image'' of
        Inl e \<Rightarrow> Inl e
      | Inr a \<Rightarrow> if truthy a then Inr a else py_get d ''image_url'')"

text \<open>The record mapper: the \<open>Project(...)\<close> call of the loop body for one record.\<close>

definition map_doc :: "pyval \<Rightarrow> error + Project" where
  "map_doc d =
     (case title_arg d of
        Inl e \<Rightarrow> Inl e
      | Inr t \<Rightarrow>
          (case location_arg d of
             Inl e \<Rightarrow> Inl e
           | Inr l \<Rightarrow>
               (case image_arg d of
                  Inl e \<Rightarrow> Inl e
                | Inr i \<Rightarrow> new_Project t l i)))"

text \<open>
  The \<open>for d in docs\<close> loop, with \<open>items\<close> as the accumulator that \<open>append\<close>
  extends; an exception leaves the loop at once.
\<close>

fun map_loop :: "pyval list \<Rightarrow> Project list \<Rightarrow> error + Project list" where
  "map_loop [] items = Inr items"
| "map_loop (d # docs) items =
     (case map_doc d of
        Inl e \<Rightarrow> Inl e
      | Inr x \<Rightarrow> map_loop docs (items @ [x]))"

text \<open>
  What \<open>get_documents("projects")\<close> does is not part of \<open>main.py\<close>; its outcome is
  the parameter of the model: it raises an exception of class \<open>Exception\<close>, given
  by its text, or it returns a list of records.
\<close>

datatype gateway_outcome =
    Raises string
  | Returns "pyval list"

text \<open>The body of the \<open>try\<close> block (lines 125--136).\<close>

definition list_projects_try :: "gateway_outcome \<Rightarrow> error + Project list" where
  "list_projects_try g =
     (case g of
        Raises m \<Rightarrow> Inl (GatewayError m)
      | Returns docs \<Rightarrow>
          if docs = [] then default_projects
          else map_loop docs [])"

text \<open>
  \<open>list_projects\<close>: an exception of the \<open>try\<close> block is caught and the defaults are
  built in the handler; an exception raised there would leave the function.
\<close>

definition list_projects :: "gateway_outcome \<Rightarrow> error + Project list" where
  "list_projects g =
     (case list_projects_try g of
        Inl e \<Rightarrow> default_projects
      | Inr items \<Rightarrow> Inr items)"

text \<open>The four projects of the default set, as values.\<close>

definition fallback_set :: "Project list" where
  "fallback_set =
     [ \<lparr>title = ''Courtyard Residence'', location = Some ''Lisbon, Portugal'',
        image = Some ''https://images.unsplash.com/photo-1501045661006-fcebe0257c3f?q=80&w=1600&auto=format&fit=crop''\<rparr>,
       \<lparr>title = ''Gallery Pavilion'', location = Some ''Copenhagen, Denmark'',
        image = Some ''https://images.unsplash.com/photo-1529429612777-95c0d0f2ad32?q=80&w=1600&auto=format&fit=crop''\<rparr>,
       \<lparr>title = ''Cliff House'', location = Some ''Big Sur, USA'',
        image = Some ''https://images.unsplash.com/photo-1519710164239-da123dc03ef4?q=80&w=1600&auto=format&fit=crop''\<rparr>,
       \<lparr>title = ''Cultural Center'', location = Some ''Kyoto, Japan'',
        image = Some ''https://images.unsplash.com/photo-1518770660439-4636190af475?q=80&w=1600&auto=format&fit=crop''\<rparr> ]"

section \<open>The specification's reading of the record mapper\<close>

text \<open>
  The specification describes the mapper by "the first non-empty value among" two
  stored fields, "else" a default. These definitions follow its words, to be compared
  with \<open>map_doc\<close>: a value is non-empty when it is truthy, and a field that is missing
  reads as \<open>None\<close>.
\<close>

definition first_non_empty :: "pyval list \<Rightarrow> pyval option" where
  "first_non_empty vs = (case filter truthy vs of [] \<Rightarrow> None | v # _ \<Rightarrow> Some v)"


definition spec_title :: "(string \<times> pyval) list \<Rightarrow> pyval" where
  "spec_title kvs =
     (case first_non_empty [dict_get kvs ''title'', dict_get kvs ''name''] of
        Some v \<Rightarrow> v
      | None \<Rightarrow> PStr ''Untitled'')"


text \<open>
  A record with plain fields: each of the five fields the mapper reads is missing,
  \<open>None\<close> or a string.
\<close>

fun str_or_none :: "pyval \<Rightarrow> bool" where
  "str_or_none PNone = True"
| "str_or_none (PStr s) = True"
| "str_or_none (PList xs) = False"
| "str_or_none (PDict kvs) = False"

definition plain_fields :: "(string \<times> pyval) list \<Rightarrow> bool" where
  "plain_fields kvs =
     list_all (\<lambda>k. str_or_none (dict_get kvs k))
       [''title'', ''name'', ''location'', ''image'', ''image_url'']"

text \<open>
  The three values that the mapper hands to the constructor, in the specification's
  words: the title is \<open>spec_title\<close>, the location is the stored field, and the image
  is the first non-empty value among \<open>image\<close> and \<open>image_url\<close>, or what
  \<open>image_url\<close> holds when there is none. The constructor accepts them when the
  title is a string and the other two are each \<open>None\<close> or a string.
\<close>

fun is_str :: "pyval \<Rightarrow> bool" where
  "is_str (PStr s) = True"
| "is_str PNone = False"
| "is_str (PList xs) = False"
| "is_str (PDict kvs) = False"

definition image_value :: "(string \<times> pyval) list \<Rightarrow> pyval" where
  "image_value kvs =
     (case first_non_empty [dict_get kvs ''image'', dict_get kvs ''image_url''] of
        Some v \<Rightarrow> v
      | None \<Rightarrow> dict_get kvs ''image_url'')"

definition constructor_accepts :: "(string \<times> pyval) list \<Rightarrow> bool" where
  "constructor_accepts kvs =
     (is_str (spec_title kvs) \<and> str_or_none (dict_get kvs ''location'')
      \<and> str_or_none (image_value kvs))"

text \<open>
  A stand-in for the address check in the examples below: it accepts, unchanged, the
  strings that contain an at sign.
\<close>

definition sample_validate_email :: "string \<Rightarrow> string option" where
  "sample_validate_email s = (if CHR ''@'' \<in> set s then Some s else None)"

section \<open>The default set\<close>

lemma default_projects_eq: "default_projects = Inr fallback_set"
  by (simp add: default_projects_def DEFAULT_PROJECTS_def Project_of_kwargs_def
      new_Project_def dict_get_def fallback_set_def)

lemma list_projects_caught:
  "list_projects_try g = Inl e \<Longrightarrow> list_projects g = Inr fallback_set"
  by (simp add: list_projects_def default_projects_eq)

lemma list_projects_returned:
  "list_projects_try g = Inr items \<Longrightarrow> list_projects g = Inr items"
  by (simp add: list_projects_def)

text \<open>
  C6. The fallback supplier has no input and no state: the comprehension over
  \<open>DEFAULT_PROJECTS\<close> raises nothing and is always the same four projects, whose
  titles are, in this order, Courtyard Residence, Gallery Pavilion, Cliff House and
  Cultural Center.
\<close>

theorem fallback_fixed_four:
  "default_projects = Inr fallback_set
   \<and> length fallback_set = 4
   \<and> map title fallback_set =
       [''Courtyard Residence'', ''Gallery Pavilion'', ''Cliff House'', ''Cultural Center'']"
  by (simp add: default_projects_def DEFAULT_PROJECTS_def Project_of_kwargs_def
      new_Project_def dict_get_def fallback_set_def)

section \<open>The listing falls back on failure and on an empty store\<close>

text \<open>
  C1. When \<open>get_documents("projects")\<close> raises, whatever the exception says,
  \<open>list_projects\<close> raises nothing and returns exactly the four-element fallback set.
\<close>

theorem list_projects_fail_open:
  "list_projects (Raises m) = Inr fallback_set \<and> length fallback_set = 4"
proof -
  have "list_projects_try (Raises m) = Inl (GatewayError m)"
    by (simp add: list_projects_try_def)
  then have "list_projects (Raises m) = Inr fallback_set"
    by (rule list_projects_caught)
  moreover have "length fallback_set = 4"
    by (simp add: fallback_set_def)
  ultimately show ?thesis by simp
qed

text \<open>
  C2. When \<open>get_documents("projects")\<close> succeeds with an empty sequence,
  \<open>list_projects\<close> returns exactly the four-element fallback set.
\<close>

theorem list_projects_empty_store:
  "list_projects (Returns []) = Inr fallback_set \<and> length fallback_set = 4"
proof -
  have "list_projects_try (Returns []) = Inr fallback_set"
    by (simp add: list_projects_try_def default_projects_eq)
  then have "list_projects (Returns []) = Inr fallback_set"
    by (rule list_projects_returned)
  moreover have "length fallback_set = 4"
    by (simp add: fallback_set_def)
  ultimately show ?thesis by simp
qed

section \<open>The loop over the stored records\<close>

lemma map_loop_all_mapped:
  "map map_doc docs = map Inr ps \<Longrightarrow> map_loop docs items = Inr (items @ ps)"
proof (induction docs arbitrary: items ps)
  case Nil
  then show ?case by simp
next
  case (Cons d docs)
  then obtain q qs where ps: "ps = q # qs" and q: "map_doc d = Inr q"
    and qs: "map map_doc docs = map Inr qs"
    by (cases ps) auto
  from Cons.IH [OF qs] have "map_loop docs (items @ [q]) = Inr ((items @ [q]) @ qs)" .
  with q ps show ?case by simp
qed

lemma map_loop_raises:
  "d \<in> set docs \<Longrightarrow> map_doc d = Inl e \<Longrightarrow> \<exists>e'. map_loop docs items = Inl e'"
proof (induction docs arbitrary: items)
  case Nil
  then show ?case by simp
next
  case (Cons x docs)
  show ?case
  proof (cases "map_doc x")
    case (Inl e')
    then show ?thesis by simp
  next
    case (Inr p)
    with Cons.prems have "d \<in> set docs" by auto
    from Cons.IH [OF this Cons.prems(2)] Inr show ?thesis by simp
  qed
qed

lemma map_loop_returns:
  "map_loop docs items = Inr ps \<Longrightarrow>
     \<exists>qs. ps = items @ qs \<and> map map_doc docs = map Inr qs"
proof (induction docs arbitrary: items)
  case Nil
  then show ?case by simp
next
  case (Cons d docs)
  then obtain q where q: "map_doc d = Inr q" and rest: "map_loop docs (items @ [q]) = Inr ps"
    by (cases "map_doc d") auto
  from Cons.IH [OF rest] obtain qs where "ps = (items @ [q]) @ qs"
    and "map map_doc docs = map Inr qs" by blast
  with q have "ps = items @ (q # qs) \<and> map map_doc (d # docs) = map Inr (q # qs)" by simp
  then show ?case by blast
qed

lemma list_projects_all_mapped:
  assumes "docs \<noteq> []" and "map map_doc docs = map Inr ps"
  shows "list_projects (Returns docs) = Inr ps"
proof -
  from assms(2) have "map_loop docs [] = Inr ([] @ ps)"
    by (rule map_loop_all_mapped)
  with assms(1) have "list_projects_try (Returns docs) = Inr ps"
    by (simp add: list_projects_try_def)
  then show ?thesis by (rule list_projects_returned)
qed

lemma list_projects_record_raises:
  assumes "d \<in> set docs" and "map_doc d = Inl e"
  shows "list_projects (Returns docs) = Inr fallback_set"
proof -
  from assms obtain e' where "map_loop docs [] = Inl e'"
    using map_loop_raises by blast
  moreover from assms(1) have "docs \<noteq> []" by auto
  ultimately have "list_projects_try (Returns docs) = Inl e'"
    by (simp add: list_projects_try_def)
  then show ?thesis by (rule list_projects_caught)
qed

lemma map_doc_not_mapping: "\<not> is_mapping d \<Longrightarrow> map_doc d = Inl AttributeError"
  by (cases d) (simp_all add: map_doc_def title_arg_def)

lemma fallback_set_not_Nil: "fallback_set \<noteq> []"
  by (simp add: fallback_set_def)

section \<open>Order of the listing\<close>

text \<open>
  C3, as amended. For every non-empty sequence of records on each of which the record
  mapper succeeds, \<open>list_projects\<close> returns the mapped projects, one per record and
  in the order of the store; for two records \<open>[A, B]\<close> that is \<open>[map A, map B]\<close>.
\<close>

theorem list_projects_maps_in_order:
  "docs \<noteq> [] \<Longrightarrow> map map_doc docs = map Inr ps \<Longrightarrow>
     list_projects (Returns docs) = Inr ps \<and> length ps = length docs"
proof -
  assume ne: "docs \<noteq> []" and all: "map map_doc docs = map Inr ps"
  then have "list_projects (Returns docs) = Inr ps"
    by (rule list_projects_all_mapped)
  moreover from all have
    "length (map map_doc docs) = length (map Inr ps :: (error + Project) list)"
    by simp
  then have "length ps = length docs" by simp
  ultimately show ?thesis by simp
qed

text \<open>Two records, the second with \<open>name\<close> in place of \<open>title\<close>.\<close>

theorem list_projects_maps_in_order_witness:
  "[PDict [(''title'', PStr ''A'')], PDict [(''name'', PStr ''B''), (''location'', PStr ''Oslo'')]] \<noteq> []
   \<and> map map_doc [PDict [(''title'', PStr ''A'')],
                   PDict [(''name'', PStr ''B''), (''location'', PStr ''Oslo'')]]
       = map Inr [\<lparr>title = ''A'', location = None, image = None\<rparr>,
                  \<lparr>title = ''B'', location = Some ''Oslo'', image = None\<rparr>]
   \<and> list_projects (Returns [PDict [(''title'', PStr ''A'')],
                             PDict [(''name'', PStr ''B''), (''location'', PStr ''Oslo'')]])
       = Inr [\<lparr>title = ''A'', location = None, image = None\<rparr>,
              \<lparr>title = ''B'', location = Some ''Oslo'', image = None\<rparr>]"
proof -
  have m: "map map_doc [PDict [(''title'', PStr ''A'')],
                   PDict [(''name'', PStr ''B''), (''location'', PStr ''Oslo'')]]
       = map Inr [\<lparr>title = ''A'', location = None, image = None\<rparr>,
                  \<lparr>title = ''B'', location = Some ''Oslo'', image = None\<rparr>]"
    by (simp add: map_doc_def title_arg_def location_arg_def image_arg_def new_Project_def
        dict_get_def)
  have ne: "[PDict [(''title'', PStr ''A'')],
             PDict [(''name'', PStr ''B''), (''location'', PStr ''Oslo'')]] \<noteq> []"
    by simp
  from list_projects_maps_in_order [OF ne m] m ne show ?thesis by simp
qed

text \<open>
  The claim as it was stated, for every non-empty sequence of records, fails on a
  record whose \<open>location\<close> holds a list: the first record maps, the constructor
  raises on the second, the handler catches that, and the listing is the four
  defaults instead of two mapped projects.
\<close>

theorem list_projects_ill_typed_counterexample:
  "map_doc (PDict [(''title'', PStr ''A'')]) = Inr \<lparr>title = ''A'', location = None, image = None\<rparr>
   \<and> map_doc (PDict [(''title'', PStr ''B''), (''location'', PList [PStr ''Oslo'', PStr ''Norway''])])
       = Inl ValidationError
   \<and> list_projects (Returns [PDict [(''title'', PStr ''A'')],
        PDict [(''title'', PStr ''B''), (''location'', PList [PStr ''Oslo'', PStr ''Norway''])]])
       = Inr fallback_set
   \<and> length fallback_set = 4"
  by (simp add: list_projects_def list_projects_try_def map_doc_def title_arg_def
      location_arg_def image_arg_def new_Project_def dict_get_def default_projects_eq
      fallback_set_def)

section \<open>Records that are not mappings\<close>

text \<open>
  C9, as amended. When the sequence that the store returns contains a record that is
  not a mapping, the attribute error of \<open>d.get\<close> is caught: \<open>list_projects\<close> raises
  nothing and returns exactly the fallback set, whatever the other records are.
\<close>

theorem list_projects_non_mapping_falls_back:
  "d \<in> set docs \<Longrightarrow> \<not> is_mapping d \<Longrightarrow>
     map_doc d = Inl AttributeError \<and> list_projects (Returns docs) = Inr fallback_set"
proof -
  assume d: "d \<in> set docs" and nm: "\<not> is_mapping d"
  from nm have r: "map_doc d = Inl AttributeError" by (rule map_doc_not_mapping)
  from d r have "list_projects (Returns docs) = Inr fallback_set"
    by (rule list_projects_record_raises)
  with r show ?thesis by simp
qed

theorem list_projects_non_mapping_falls_back_witness:
  "PStr ''oops'' \<in> set [PStr ''oops'', PDict [(''title'', PStr ''A'')]]
   \<and> \<not> is_mapping (PStr ''oops'')
   \<and> list_projects (Returns [PStr ''oops'', PDict [(''title'', PStr ''A'')]]) = Inr fallback_set"
proof -
  have a: "PStr ''oops'' \<in> set [PStr ''oops'', PDict [(''title'', PStr ''A'')]]" by simp
  have b: "\<not> is_mapping (PStr ''oops'')" by simp
  from list_projects_non_mapping_falls_back [OF a b] a b show ?thesis by simp
qed

text \<open>
  The claim as it was stated wants the malformed record listed as an untitled project
  and the well-formed one mapped after it; the code returns neither.
\<close>

theorem list_projects_non_mapping_counterexample:
  "list_projects (Returns [PStr ''oops'', PDict [(''title'', PStr ''A'')]])
     \<noteq> Inr [\<lparr>title = ''Untitled'', location = None, image = None\<rparr>,
             \<lparr>title = ''A'', location = None, image = None\<rparr>]"
  by (simp add: list_projects_def list_projects_try_def map_doc_def title_arg_def
      default_projects_eq fallback_set_def)

section \<open>The listing is never empty\<close>

text \<open>
  C10. For every outcome of the gateway, \<open>list_projects\<close> raises nothing and returns
  a sequence with at least one element: the four defaults, or one mapped project for
  each stored record.
\<close>

theorem list_projects_total_nonempty:
  "\<exists>ps. list_projects g = Inr ps \<and> ps \<noteq> []
     \<and> (ps = fallback_set \<or> (\<exists>docs. g = Returns docs \<and> map map_doc docs = map Inr ps))"
proof (cases "list_projects_try g")
  case (Inl e)
  then have "list_projects g = Inr fallback_set" by (rule list_projects_caught)
  with fallback_set_not_Nil show ?thesis by blast
next
  case (Inr items)
  then have res: "list_projects g = Inr items" by (rule list_projects_returned)
  show ?thesis
  proof (cases g)
    case (Raises m)
    with Inr show ?thesis by (simp add: list_projects_try_def)
  next
    case (Returns docs)
    show ?thesis
    proof (cases "docs = []")
      case True
      with Returns Inr have "items = fallback_set"
        by (simp add: list_projects_try_def default_projects_eq)
      with res fallback_set_not_Nil show ?thesis by blast
    next
      case False
      with Returns Inr have "map_loop docs [] = Inr items"
        by (simp add: list_projects_try_def)
      from map_loop_returns [OF this] have m: "map map_doc docs = map Inr items" by simp
      then have "length (map map_doc docs) = length (map Inr items :: (error + Project) list)"
        by simp
      with False have "items \<noteq> []" by auto
      with res Returns m show ?thesis by blast
    qed
  qed
qed

section \<open>The record mapper\<close>

lemma truthy_plain: "str_or_none v \<Longrightarrow> truthy v \<Longrightarrow> \<exists>s. v = PStr s \<and> s \<noteq> []"
  by (cases v) simp_all



lemma spec_title_plain:
  assumes "str_or_none (dict_get kvs ''title'')" and "str_or_none (dict_get kvs ''name'')"
  shows "\<exists>s. spec_title kvs = PStr s \<and> s \<noteq> []"
  using assms truthy_plain [of "dict_get kvs ''title''"]
    truthy_plain [of "dict_get kvs ''name''"]
  by (auto simp add: spec_title_def first_non_empty_def)












text \<open>Plain fields are enough for the constructor to accept, and not needed for it.\<close>

lemma plain_fields_accepted: "plain_fields kvs \<Longrightarrow> constructor_accepts kvs"
proof -
  assume p: "plain_fields kvs"
  then have t: "str_or_none (dict_get kvs ''title'')"
    and n: "str_or_none (dict_get kvs ''name'')"
    and l: "str_or_none (dict_get kvs ''location'')"
    and i: "str_or_none (dict_get kvs ''image'')"
    and u: "str_or_none (dict_get kvs ''image_url'')"
    by (simp_all add: plain_fields_def)
  from spec_title_plain [OF t n] have "is_str (spec_title kvs)" by auto
  moreover from i u have "str_or_none (image_value kvs)"
    by (simp add: image_value_def first_non_empty_def)
  ultimately show ?thesis using l by (simp add: constructor_accepts_def)
qed







section \<open>Contact submission\<close>

lemma short_name_rejected:
  "dict_get kvs ''name'' = PStr n \<Longrightarrow> length n < 2 \<Longrightarrow>
     new_ContactMessageIn validate_email (PDict kvs) = Inl ValidationError"
  by (simp add: validate_constrained_str_def)

lemma bad_email_rejected:
  "dict_get kvs ''email'' = PStr a \<Longrightarrow> validate_email a = None \<Longrightarrow>
     \<exists>e. new_ContactMessageIn validate_email (PDict kvs) = Inl e"
  by (simp add: validate_EmailStr_def split: sum.splits)

lemma rejected_no_call:
  "new_ContactMessageIn validate_email body = Inl e \<Longrightarrow>
     post_api_contact validate_email create_document body calls
       = (Inl RequestValidationError, calls)"
  by (simp add: post_api_contact_def)

lemma accepted_one_call:
  "new_ContactMessageIn validate_email body = Inr msg \<Longrightarrow>
     snd (post_api_contact validate_email create_document body calls)
       = calls @ [(''contact_messages'', msg)]"
  by (simp add: post_api_contact_def submit_contact_def split: sum.splits)

lemma accepted_created:
  "new_ContactMessageIn validate_email body = Inr msg \<Longrightarrow>
   create_document ''contact_messages'' msg = Inr doc_id \<Longrightarrow>
     fst (post_api_contact validate_email create_document body calls)
       = Inr (PDict [(''status'', PStr ''ok''), (''id'', PStr doc_id)])"
  by (simp add: post_api_contact_def submit_contact_def)

lemma accepted_create_raises:
  "new_ContactMessageIn validate_email body = Inr msg \<Longrightarrow>
   create_document ''contact_messages'' msg = Inl e \<Longrightarrow>
     fst (post_api_contact validate_email create_document body calls)
       = Inl (HTTPException 500 e)"
  by (simp add: post_api_contact_def submit_contact_def)

lemma sample_short:
  "dict_get [(''name'', PStr ''A''), (''email'', PStr ''ann@example.com''),
             (''message'', PStr ''Please call me back.'')] ''name'' = PStr ''A''
   \<and> length ''A'' < 2"
  by (simp add: dict_get_def)

lemma sample_bad_email:
  "dict_get [(''name'', PStr ''Ann''), (''email'', PStr ''ann.example.com''),
             (''message'', PStr ''Please call me back.'')] ''email'' = PStr ''ann.example.com''
   \<and> sample_validate_email ''ann.example.com'' = None"
  by (simp add: dict_get_def sample_validate_email_def)

lemma sample_valid:
  "new_ContactMessageIn sample_validate_email
     (PDict [(''name'', PStr ''Ann''), (''email'', PStr ''ann@example.com''),
             (''message'', PStr ''Please call me back.'')])
   = Inr \<lparr>name = ''Ann'', email = ''ann@example.com'', message = ''Please call me back.''\<rparr>"
  by (simp add: dict_get_def sample_validate_email_def validate_constrained_str_def
      validate_EmailStr_def)

text \<open>
  C7. A submission whose name has fewer than two characters, or whose email the
  address check refuses, is answered with status 422 and no call of
  \<open>create_document\<close> is made; a submission that validates makes exactly one call, for
  the collection \<open>contact_messages\<close> with the validated message, and when that call
  returns an id the answer is the object with \<open>status\<close> "ok" and that \<open>id\<close>.
\<close>

theorem contact_validated_before_create:
  "(dict_get kvs ''name'' = PStr n \<and> length n < 2 \<longrightarrow>
      status_code (fst (post_api_contact validate_email create_document (PDict kvs) calls)) = 422
      \<and> snd (post_api_contact validate_email create_document (PDict kvs) calls) = calls)
   \<and> (dict_get kvs ''email'' = PStr a \<and> validate_email a = None \<longrightarrow>
      status_code (fst (post_api_contact validate_email create_document (PDict kvs) calls)) = 422
      \<and> snd (post_api_contact validate_email create_document (PDict kvs) calls) = calls)
   \<and> (new_ContactMessageIn validate_email body = Inr msg \<longrightarrow>
      snd (post_api_contact validate_email create_document body calls)
        = calls @ [(''contact_messages'', msg)]
      \<and> (create_document ''contact_messages'' msg = Inr doc_id \<longrightarrow>
           fst (post_api_contact validate_email create_document body calls)
             = Inr (PDict [(''status'', PStr ''ok''), (''id'', PStr doc_id)])))"
proof (intro conjI impI)
  assume "dict_get kvs ''name'' = PStr n \<and> length n < 2"
  then have "new_ContactMessageIn validate_email (PDict kvs) = Inl ValidationError"
    using short_name_rejected by blast
  then have r: "post_api_contact validate_email create_document (PDict kvs) calls
      = (Inl RequestValidationError, calls)"
    by (rule rejected_no_call)
  from r show
    "status_code (fst (post_api_contact validate_email create_document (PDict kvs) calls)) = 422"
    by simp
  from r show "snd (post_api_contact validate_email create_document (PDict kvs) calls) = calls"
    by simp
next
  assume "dict_get kvs ''email'' = PStr a \<and> validate_email a = None"
  then obtain e where "new_ContactMessageIn validate_email (PDict kvs) = Inl e"
    using bad_email_rejected by blast
  then have r: "post_api_contact validate_email create_document (PDict kvs) calls
      = (Inl RequestValidationError, calls)"
    by (rule rejected_no_call)
  from r show
    "status_code (fst (post_api_contact validate_email create_document (PDict kvs) calls)) = 422"
    by simp
  from r show "snd (post_api_contact validate_email create_document (PDict kvs) calls) = calls"
    by simp
next
  assume "new_ContactMessageIn validate_email body = Inr msg"
  then show "snd (post_api_contact validate_email create_document body calls)
        = calls @ [(''contact_messages'', msg)]"
    by (rule accepted_one_call)
next
  assume "new_ContactMessageIn validate_email body = Inr msg"
    and "create_document ''contact_messages'' msg = Inr doc_id"
  then show "fst (post_api_contact validate_email create_document body calls)
             = Inr (PDict [(''status'', PStr ''ok''), (''id'', PStr doc_id)])"
    by (rule accepted_created)
qed

text \<open>
  A one-character name, an address without an at sign, and a submission that validates
  and is stored under the id "65a1", each starting from no recorded call.
\<close>

theorem contact_validated_before_create_witness:
  "(dict_get [(''name'', PStr ''A''), (''email'', PStr ''ann@example.com''),
             (''message'', PStr ''Please call me back.'')] ''name'' = PStr ''A''
    \<and> length ''A'' < 2
    \<and> status_code (fst (post_api_contact sample_validate_email (\<lambda>c m. Inr ''65a1'')
         (PDict [(''name'', PStr ''A''), (''email'', PStr ''ann@example.com''),
                 (''message'', PStr ''Please call me back.'')]) [])) = 422
    \<and> snd (post_api_contact sample_validate_email (\<lambda>c m. Inr ''65a1'')
         (PDict [(''name'', PStr ''A''), (''email'', PStr ''ann@example.com''),
                 (''message'', PStr ''Please call me back.'')]) []) = [])
   \<and> (dict_get [(''name'', PStr ''Ann''), (''email'', PStr ''ann.example.com''),
             (''message'', PStr ''Please call me back.'')] ''email'' = PStr ''ann.example.com''
    \<and> sample_validate_email ''ann.example.com'' = None
    \<and> status_code (fst (post_api_contact sample_validate_email (\<lambda>c m. Inr ''65a1'')
         (PDict [(''name'', PStr ''Ann''), (''email'', PStr ''ann.example.com''),
                 (''message'', PStr ''Please call me back.'')]) [])) = 422
    \<and> snd (post_api_contact sample_validate_email (\<lambda>c m. Inr ''65a1'')
         (PDict [(''name'', PStr ''Ann''), (''email'', PStr ''ann.example.com''),
                 (''message'', PStr ''Please call me back.'')]) []) = [])
   \<and> (new_ContactMessageIn sample_validate_email
         (PDict [(''name'', PStr ''Ann''), (''email'', PStr ''ann@example.com''),
                 (''message'', PStr ''Please call me back.'')])
       = Inr \<lparr>name = ''Ann'', email = ''ann@example.com'', message = ''Please call me back.''\<rparr>
    \<and> snd (post_api_contact sample_validate_email (\<lambda>c m. Inr ''65a1'')
         (PDict [(''name'', PStr ''Ann''), (''email'', PStr ''ann@example.com''),
                 (''message'', PStr ''Please call me back.'')]) [])
       = [(''contact_messages'',
           \<lparr>name = ''Ann'', email = ''ann@example.com'', message = ''Please call me back.''\<rparr>)]
    \<and> fst (post_api_contact sample_validate_email (\<lambda>c m. Inr ''65a1'')
         (PDict [(''name'', PStr ''Ann''), (''email'', PStr ''ann@example.com''),
                 (''message'', PStr ''Please call me back.'')]) [])
       = Inr (PDict [(''status'', PStr ''ok''), (''id'', PStr ''65a1'')]))"
proof -
  let ?create = "\<lambda>(c::string) (m::ContactMessageIn). (Inr ''65a1'' :: string + string)"
  note t = contact_validated_before_create [where validate_email = sample_validate_email
      and create_document = ?create and calls = "[]"]
  have c: "?create ''contact_messages''
      \<lparr>name = ''Ann'', email = ''ann@example.com'', message = ''Please call me back.''\<rparr>
      = Inr ''65a1''" by simp
  from t [THEN conjunct1, rule_format, OF sample_short]
    t [THEN conjunct2, THEN conjunct1, rule_format, OF sample_bad_email]
    t [THEN conjunct2, THEN conjunct2, rule_format, OF sample_valid, THEN conjunct1]
    t [THEN conjunct2, THEN conjunct2, rule_format, OF sample_valid, THEN conjunct2,
       rule_format, OF c]
    sample_short sample_bad_email sample_valid
  show ?thesis by simp
qed

text \<open>
  C8. When a submission validates and \<open>create_document\<close> raises, the answer has
  status 500 and its detail is the text of the exception; the one call was made. An
  exception that says "disk full" gives a detail that says "disk full".
\<close>

theorem contact_create_failure_surfaced:
  "new_ContactMessageIn validate_email body = Inr msg \<Longrightarrow>
   create_document ''contact_messages'' msg = Inl e \<Longrightarrow>
     status_code (fst (post_api_contact validate_email create_document body calls)) = 500
     \<and> detail (fst (post_api_contact validate_email create_document body calls)) = Some e
     \<and> snd (post_api_contact validate_email create_document body calls)
         = calls @ [(''contact_messages'', msg)]"
proof -
  assume v: "new_ContactMessageIn validate_email body = Inr msg"
    and c: "create_document ''contact_messages'' msg = Inl e"
  from v c have "fst (post_api_contact validate_email create_document body calls)
       = Inl (HTTPException 500 e)"
    by (rule accepted_create_raises)
  moreover from v have "snd (post_api_contact validate_email create_document body calls)
         = calls @ [(''contact_messages'', msg)]"
    by (rule accepted_one_call)
  ultimately show ?thesis by simp
qed

theorem contact_create_failure_surfaced_witness:
  "new_ContactMessageIn sample_validate_email
         (PDict [(''name'', PStr ''Ann''), (''email'', PStr ''ann@example.com''),
                 (''message'', PStr ''Please call me back.'')])
       = Inr \<lparr>name = ''Ann'', email = ''ann@example.com'', message = ''Please call me back.''\<rparr>
   \<and> status_code (fst (post_api_contact sample_validate_email (\<lambda>c m. Inl ''disk full'')
         (PDict [(''name'', PStr ''Ann''), (''email'', PStr ''ann@example.com''),
                 (''message'', PStr ''Please call me back.'')]) [])) = 500
   \<and> detail (fst (post_api_contact sample_validate_email (\<lambda>c m. Inl ''disk full'')
         (PDict [(''name'', PStr ''Ann''), (''email'', PStr ''ann@example.com''),
                 (''message'', PStr ''Please call me back.'')]) [])) = Some ''disk full''"
proof -
  let ?create = "\<lambda>(c::string) (m::ContactMessageIn). (Inl ''disk full'' :: string + string)"
  have c: "?create ''contact_messages''
      \<lparr>name = ''Ann'', email = ''ann@example.com'', message = ''Please call me back.''\<rparr>
      = Inl ''disk full''" by simp
  from contact_create_failure_surfaced [where create_document = ?create and calls = "[]",
      OF sample_valid c] sample_valid
  show ?thesis by simp
qed

end
